theory Spec2Isabelle
  imports Complex_Main "HOL-Library.Log_Nat"
begin

unbundle bit_operations_syntax

section \<open>Python values shared by the services\<close>

text \<open>
  Exceptions are values. Each constructor is the Python class that the source (or the library
  it calls) raises; the argument is the message, which is what \<open>str(e)\<close> returns.
  \<open>OSError\<close> stands for a failure reported by the device, the file system or the
  external process.
\<close>

datatype exn =
    ValueError string
  | TypeError string
  | AttributeError string
  | ConnectionError string
  | ZeroDivisionError string
  | OverflowError string
  | OSError string
  | Exception string

fun str_exn :: "exn \<Rightarrow> string" where
  "str_exn (ValueError m) = m"
| "str_exn (TypeError m) = m"
| "str_exn (AttributeError m) = m"
| "str_exn (ConnectionError m) = m"
| "str_exn (ZeroDivisionError m) = m"
| "str_exn (OverflowError m) = m"
| "str_exn (OSError m) = m"
| "str_exn (Exception m) = m"

subsection \<open>Strings\<close>

text \<open>
  A Python \<open>str\<close> is modelled as a \<open>string\<close>; a character stands for the code point
  of the same number, so the model covers texts in the range 0..255. \<open>is_space\<close> lists
  the code points of that range that \<open>str.strip\<close> removes.
\<close>

definition is_space :: "char \<Rightarrow> bool" where
  "is_space c = (let n = (of_char c :: nat)
                 in (9 \<le> n \<and> n \<le> 13) \<or> (28 \<le> n \<and> n \<le> 32) \<or> n = 133 \<or> n = 160)"

text \<open>\<open>s.strip()\<close> is the empty string exactly when every character of \<open>s\<close> is white space.\<close>

definition strip_is_empty :: "string \<Rightarrow> bool" where
  "strip_is_empty s = list_all is_space s"

text \<open>\<open>s.split(sep)\<close> for a one-character separator: never an empty list.\<close>

fun split_on :: "char \<Rightarrow> string \<Rightarrow> string list" where
  "split_on sep [] = [[]]"
| "split_on sep (c # cs) =
     (if c = sep then [] # split_on sep cs
      else (case split_on sep cs of
              [] \<Rightarrow> [[c]]
            | p # ps \<Rightarrow> (c # p) # ps))"

text \<open>\<open>sep.join(parts)\<close>.\<close>

fun join :: "string \<Rightarrow> string list \<Rightarrow> string" where
  "join sep [] = []"
| "join sep [p] = p"
| "join sep (p # q # ps) = p @ sep @ join sep (q # ps)"

text \<open>\<open>str(n)\<close> for an integer, as an f-string formats it.\<close>

definition digit_char :: "nat \<Rightarrow> char" where
  "digit_char d = char_of (48 + d)"

function str_nat :: "nat \<Rightarrow> string" where
  "str_nat n = (if n < 10 then [digit_char n] else str_nat (n div 10) @ [digit_char (n mod 10)])"
  by pat_completeness auto
termination
  by (relation "measure id") auto

declare str_nat.simps [simp del]

definition str_int :: "int \<Rightarrow> string" where
  "str_int i = (if i < 0 then CHR ''-'' # str_nat (nat (- i)) else str_nat (nat i))"

subsection \<open>Floating point\<close>

text \<open>
  A finite Python \<open>float\<close> is the rational it denotes. \<open>round_double\<close> rounds a rational
  to the nearest number with a 53-bit significand, ties to even, which is what every IEEE 754
  double operation does with its exact result. The exponent is not bounded below:
  subnormal numbers (magnitudes under \<open>2 ^ -1022\<close>) are not modelled. Overflow is.
\<close>

definition pow2 :: "int \<Rightarrow> rat" where
  "pow2 e = (if 0 \<le> e then 2 ^ nat e else 1 / 2 ^ nat (- e))"

text \<open>For \<open>0 < x\<close>, the exponent \<open>e\<close> with \<open>2 ^ e \<le> x < 2 ^ (e + 1)\<close>.\<close>

definition ilog2 :: "rat \<Rightarrow> int" where
  "ilog2 x = (if 1 \<le> x then bitlen \<lfloor>x\<rfloor> - 1
              else - bitlen (\<lceil>1 / x\<rceil> - 1))"

definition round_half_even :: "rat \<Rightarrow> int" where
  "round_half_even x =
     (let f = \<lfloor>x\<rfloor>; d = x - of_int f
      in if d < 1 / 2 then f
         else if 1 / 2 < d then f + 1
         else if even f then f else f + 1)"

definition round_double :: "rat \<Rightarrow> rat" where
  "round_double x =
     (if x = 0 then 0
      else (let ulp = pow2 (ilog2 \<bar>x\<bar> - 52)
            in sgn x * of_int (round_half_even (\<bar>x\<bar> / ulp)) * ulp))"

datatype pyfloat = Fin rat | Inf | NaN

text \<open>The result of an operation whose exact value is \<open>r\<close>: rounded, infinite on overflow.\<close>

definition fin :: "rat \<Rightarrow> pyfloat" where
  "fin r = (let d = round_double r in if 2 ^ 1024 \<le> \<bar>d\<bar> then Inf else Fin d)"

text \<open>\<open>float(n)\<close>, also the implicit conversion of an \<open>int\<close> operand.\<close>

definition float_of_int :: "int \<Rightarrow> exn + pyfloat" where
  "float_of_int n =
     (case fin (of_int n) of
        Fin d \<Rightarrow> Inr (Fin d)
      | _ \<Rightarrow> Inl (OverflowError ''int too large to convert to float''))"

fun float_mul :: "pyfloat \<Rightarrow> pyfloat \<Rightarrow> pyfloat" where
  "float_mul (Fin a) (Fin b) = fin (a * b)"
| "float_mul (Fin a) Inf = (if a = 0 then NaN else Inf)"
| "float_mul Inf (Fin b) = (if b = 0 then NaN else Inf)"
| "float_mul Inf Inf = Inf"
| "float_mul NaN y = NaN"
| "float_mul x NaN = NaN"

fun float_div :: "pyfloat \<Rightarrow> pyfloat \<Rightarrow> exn + pyfloat" where
  "float_div x (Fin b) =
     (if b = 0 then Inl (ZeroDivisionError ''float division by zero'')
      else (case x of Fin a \<Rightarrow> Inr (fin (a / b)) | Inf \<Rightarrow> Inr Inf | NaN \<Rightarrow> Inr NaN))"
| "float_div (Fin a) Inf = Inr (Fin 0)"
| "float_div Inf Inf = Inr NaN"
| "float_div NaN Inf = Inr NaN"
| "float_div x NaN = Inr NaN"

text \<open>\<open>int(x)\<close> truncates towards zero and rejects the non-finite values.\<close>

definition trunc :: "rat \<Rightarrow> int" where
  "trunc r = (if 0 \<le> r then \<lfloor>r\<rfloor> else \<lceil>r\<rceil>)"

fun int_of_float :: "pyfloat \<Rightarrow> exn + int" where
  "int_of_float (Fin r) = Inr (trunc r)"
| "int_of_float Inf = Inl (OverflowError ''cannot convert float infinity to integer'')"
| "int_of_float NaN = Inl (ValueError ''cannot convert float NaN to integer'')"

text \<open>The literal \<open>0.7\<close>.\<close>

definition float_0_7 :: pyfloat where
  "float_0_7 = fin (7 / 10)"

subsection \<open>Paths\<close>

text \<open>
  \<open>Path(p).name\<close>, \<open>Path(p).parent\<close> and \<open>str(Path(d) / n)\<close> on paths written with
  single separators; pathlib's further normalisation is not modelled.
\<close>

definition path_name :: "string \<Rightarrow> string" where
  "path_name p = last (split_on CHR ''/'' p)"

definition path_parent :: "string \<Rightarrow> string" where
  "path_parent p =
     (let parts = split_on CHR ''/'' p
      in if length parts \<le> 1 then ''.''
         else (let d = join ''/'' (butlast parts) in if d = [] then ''/'' else d))"

definition path_join :: "string \<Rightarrow> string \<Rightarrow> string" where
  "path_join d n =
     (if d = ''.'' \<or> d = [] then n
      else if last d = CHR ''/'' then d @ n
      else d @ ''/'' @ n)"

section \<open>Images, fonts and the environment\<close>

text \<open>
  A decoded image as Pillow presents it: \<open>img.format\<close> (\<open>None\<close> for an image made in
  memory), \<open>img.mode\<close>, \<open>img.size\<close>, the palette of a \<open>P\<close> or \<open>PA\<close> image, and the
  pixel rows, each pixel the list of its band values in the order of the mode.
\<close>

type_synonym pixel = "nat list"

record image =
  format :: "string option"
  mode :: string
  width :: nat
  height :: nat
  palette :: "pixel list"
  pixels :: "pixel list list"

datatype font = TrueType string int | DefaultFont

text \<open>What \<open>subprocess.run(..., timeout=5)\<close> can do.\<close>

datatype run_result =
    Completed int string string
  | TimeoutExpired
  | RunError string

text \<open>
  What a printer operation asks of the transport, and the record of each attempt.
\<close>

datatype event =
    UsbOpen int int
  | FileOpen string
  | DevText string
  | DevRaw "nat list"
  | DevImage string
  | DevCut
  | DevClose

datatype entry = Done event | Failed event string

text \<open>
  Everything outside the repository that the services read or call: the settings, the YAML
  file (its values under their dotted keys), library functions whose algorithms are not part
  of the source (taken as they are), and the behaviour of the device, which may refuse any
  operation depending on all that happened before.
\<close>

record env =
  printer_vendor_id :: string
  printer_product_id :: string
  printer_device_path :: string
  store_path :: string
  yaml_int :: "string \<rightharpoonup> int"
  yaml_bool :: "string \<rightharpoonup> bool"
  int_base16 :: "string \<Rightarrow> exn + int"
  device_error :: "entry list \<Rightarrow> event \<Rightarrow> string option"
  which :: "string \<Rightarrow> string option"
  is_executable_file :: "string \<Rightarrow> bool"
  subprocess_run :: "string list \<Rightarrow> run_result"
  demojize :: "string \<Rightarrow> string"
  unidecode :: "string \<Rightarrow> string"
  textwrap_fill :: "string \<Rightarrow> int \<Rightarrow> exn + string"
  path_exists :: "string \<Rightarrow> bool"
  truetype_loads :: "string \<Rightarrow> int \<Rightarrow> bool"
  textbbox :: "font \<Rightarrow> string \<Rightarrow> int \<times> int \<times> int \<times> int"
  draw_text :: "font \<Rightarrow> string \<Rightarrow> int \<Rightarrow> int \<Rightarrow> image \<Rightarrow> pixel list list"
  pil_convert :: "image \<Rightarrow> string \<Rightarrow> pixel list list"
  pil_resample :: "image \<Rightarrow> nat \<Rightarrow> nat \<Rightarrow> pixel list list"

text \<open>\<open>yaml_config.get_int(key, default)\<close> and \<open>get_bool\<close>.\<close>

definition get_int :: "env \<Rightarrow> string \<Rightarrow> int \<Rightarrow> int" where
  "get_int E key dflt = (case yaml_int E key of None \<Rightarrow> dflt | Some v \<Rightarrow> v)"

definition get_bool :: "env \<Rightarrow> string \<Rightarrow> bool \<Rightarrow> bool" where
  "get_bool E key dflt = (case yaml_bool E key of None \<Rightarrow> dflt | Some v \<Rightarrow> v)"

section \<open>Text preparer (services/text.py)\<close>

definition convert_emojis_to_text :: "env \<Rightarrow> string \<Rightarrow> string" where
  "convert_emojis_to_text E text = demojize E text"

definition encode_for_escpos :: "env \<Rightarrow> string \<Rightarrow> string" where
  "encode_for_escpos E text = unidecode E (convert_emojis_to_text E text)"

text \<open>The loop of \<open>wrap_text_for_printer\<close> over the paragraphs; the first exception ends it.\<close>

fun wrap_paragraphs :: "env \<Rightarrow> string list \<Rightarrow> int \<Rightarrow> exn + string list" where
  "wrap_paragraphs E [] max_width = Inr []"
| "wrap_paragraphs E (paragraph # rest) max_width =
     (if \<not> strip_is_empty paragraph then
        (case textwrap_fill E paragraph max_width of
           Inl e \<Rightarrow> Inl e
         | Inr wrapped \<Rightarrow>
             (case wrap_paragraphs E rest max_width of
                Inl e \<Rightarrow> Inl e
              | Inr lines \<Rightarrow> Inr (wrapped # lines)))
      else
        (case wrap_paragraphs E rest max_width of
           Inl e \<Rightarrow> Inl e
         | Inr lines \<Rightarrow> Inr ([] # lines)))"

definition wrap_text_for_printer :: "env \<Rightarrow> string \<Rightarrow> int \<Rightarrow> exn + string" where
  "wrap_text_for_printer E text max_width =
     (case wrap_paragraphs E (split_on CHR 0x0A text) max_width of
        Inl e \<Rightarrow> Inl e
      | Inr lines \<Rightarrow> Inr (join [CHR 0x0A] lines))"

definition common_paths :: "string list" where
  "common_paths = [''/usr/games/cowsay'', ''/usr/local/bin/cowsay'', ''/usr/bin/cowsay'', ''/bin/cowsay'']"

definition find_cowsay_command :: "env \<Rightarrow> string option" where
  "find_cowsay_command E =
     (case which E ''cowsay'' of
        Some cowsay_path \<Rightarrow>
          (if cowsay_path \<noteq> [] then Some cowsay_path
           else List.find (is_executable_file E) common_paths)
      | None \<Rightarrow> List.find (is_executable_file E) common_paths)"

text \<open>
  \<open>generate_cowsay\<close>: every failure is caught inside and becomes \<open>None\<close>.
\<close>

definition generate_cowsay :: "env \<Rightarrow> string \<Rightarrow> int \<Rightarrow> string option" where
  "generate_cowsay E text max_width =
     (case find_cowsay_command E of
        None \<Rightarrow> None
      | Some cowsay_cmd \<Rightarrow>
          (case subprocess_run E [cowsay_cmd, ''-W'', str_int max_width, encode_for_escpos E text] of
             Completed returncode out err \<Rightarrow> (if returncode = 0 then Some out else None)
           | TimeoutExpired \<Rightarrow> None
           | RunError m \<Rightarrow> None))"

definition prepare_text_for_print :: "env \<Rightarrow> string \<Rightarrow> int \<Rightarrow> bool \<Rightarrow> exn + string" where
  "prepare_text_for_print E text max_width use_cowsay =
     (if use_cowsay then
        (case generate_cowsay E text max_width of
           Some cowsay_output \<Rightarrow>
             (if cowsay_output \<noteq> [] then Inr cowsay_output
              else wrap_text_for_printer E (encode_for_escpos E text) max_width)
         | None \<Rightarrow> wrap_text_for_printer E (encode_for_escpos E text) max_width)
      else wrap_text_for_printer E (encode_for_escpos E text) max_width)"

section \<open>The state the services act on\<close>

text \<open>
  A row of \<open>ding_jobs\<close> (core/models.py), with the columns the printer service reads or
  writes; the nullable columns are options.
\<close>

record job =
  job_type :: string
  content_type :: string
  text_content :: "string option"
  image_path :: "string option"
  font_size :: "string option"
  status :: string
  error_message :: "string option"
  completed_at :: "nat option"

text \<open>
  The job table by id, the image files by path, the record of what was asked of the printer,
  and the clock that \<open>datetime.utcnow()\<close> reads.
\<close>

record world =
  db :: "int \<rightharpoonup> job"
  fs :: "string \<rightharpoonup> image"
  dev :: "entry list"
  utcnow :: nat

section \<open>Pillow operations used by the services\<close>

text \<open>
  Mode, size and file bookkeeping follow Pillow's documentation; the pixel values of a mode
  conversion, of a resampling and of drawn text come from the environment.
\<close>

definition px :: "image \<Rightarrow> nat \<Rightarrow> nat \<Rightarrow> pixel" where
  "px img x y =
     (if y < length (pixels img) \<and> x < length (pixels img ! y) then pixels img ! y ! x else [])"

definition band :: "pixel \<Rightarrow> nat \<Rightarrow> nat" where
  "band p i = (if i < length p then p ! i else 0)"

text \<open>\<open>Image.open(path)\<close>.\<close>

definition image_open :: "world \<Rightarrow> string \<Rightarrow> exn + image" where
  "image_open w path =
     (case fs w path of
        None \<Rightarrow> Inl (OSError (''[Errno 2] No such file or directory: '' @ path))
      | Some img \<Rightarrow> Inr img)"

text \<open>\<open>img.save(path)\<close>.\<close>

definition image_save :: "image \<Rightarrow> string \<Rightarrow> world \<Rightarrow> world" where
  "image_save img path w = w\<lparr>fs := (fs w)(path \<mapsto> img)\<rparr>"

text \<open>\<open>img.convert(m)\<close>: a new image of mode \<open>m\<close> and the same size.\<close>

definition convert :: "env \<Rightarrow> image \<Rightarrow> string \<Rightarrow> image" where
  "convert E img m = img\<lparr>format := None, mode := m, pixels := pil_convert E img m\<rparr>"

text \<open>\<open>Image.new(mode, (w, h), colour)\<close>, every pixel of the given colour.\<close>

definition image_new :: "string \<Rightarrow> int \<Rightarrow> int \<Rightarrow> pixel \<Rightarrow> exn + image" where
  "image_new m w h colour =
     (if w < 0 \<or> h < 0 then Inl (ValueError ''Width and height must be >= 0'')
      else Inr \<lparr>format = None, mode = m, width = nat w, height = nat h, palette = [],
                pixels = replicate (nat h) (replicate (nat w) colour)\<rparr>)"

text \<open>
  Pillow's 8-bit blend of a destination value \<open>out\<close> and a source value \<open>inp\<close> under a
  mask value \<open>m\<close>: \<open>(out * (255 - m) + inp * m) / 255\<close>, rounded by shifts.
\<close>

definition div255 :: "nat \<Rightarrow> nat" where
  "div255 a = (let tmp = a + 128 in drop_bit 8 (drop_bit 8 tmp + tmp))"

definition blend :: "nat \<Rightarrow> nat \<Rightarrow> nat \<Rightarrow> nat" where
  "blend m out inp = div255 (out * (255 - m) + inp * m)"

text \<open>
  \<open>background.paste(img, mask=img.split()[k])\<close> on an RGB background of the same size:
  the pasted image is first converted to the background's mode, then blended in under band
  \<open>k\<close> of the original.
\<close>

definition paste_mask :: "env \<Rightarrow> image \<Rightarrow> image \<Rightarrow> nat \<Rightarrow> image" where
  "paste_mask E background img k =
     (let src = convert E img (mode background)
      in background\<lparr>pixels :=
           map (\<lambda>y. map (\<lambda>x. map (\<lambda>i. blend (band (px img x y) k)
                                             (band (px background x y) i)
                                             (band (px src x y) i))
                                  [0 ..< 3])
                         [0 ..< width background])
               [0 ..< height background]\<rparr>)"

text \<open>\<open>img.transpose(Image.ROTATE_90)\<close>: a quarter turn counterclockwise.\<close>

definition transpose_ROTATE_90 :: "image \<Rightarrow> image" where
  "transpose_ROTATE_90 img =
     img\<lparr>format := None, width := height img, height := width img,
         pixels := map (\<lambda>y. map (\<lambda>x. px img (width img - 1 - y) x) [0 ..< height img])
                       [0 ..< width img]\<rparr>"

text \<open>\<open>img.resize((w, h), Image.Resampling.LANCZOS)\<close>; Pillow rejects an empty target.\<close>

definition resize :: "env \<Rightarrow> image \<Rightarrow> int \<Rightarrow> int \<Rightarrow> exn + image" where
  "resize E img w h =
     (if w < 1 \<or> h < 1 then Inl (ValueError ''height and width must be > 0'')
      else Inr (img\<lparr>format := None, width := nat w, height := nat h,
                    pixels := pil_resample E img (nat w) (nat h)\<rparr>))"

section \<open>Image pipeline (services/image.py)\<close>

text \<open>The transparency step: composite onto a white background under the alpha band.\<close>

definition has_alpha_mode :: "image \<Rightarrow> bool" where
  "has_alpha_mode img = (mode img = ''RGBA'' \<or> mode img = ''LA'' \<or> mode img = ''PA'')"

definition white_background :: "env \<Rightarrow> image \<Rightarrow> exn + image" where
  "white_background E img =
     (case image_new ''RGB'' (int (width img)) (int (height img)) [255, 255, 255] of
        Inl e \<Rightarrow> Inl e
      | Inr background \<Rightarrow>
          Inr (if mode img = ''RGBA'' then paste_mask E background img 3
               else if mode img = ''LA'' then paste_mask E background img 1
               else paste_mask E background img 1))"

text \<open>The resize step: \<open>wpercent\<close>, \<open>hsize\<close> and the call of \<open>resize\<close>.\<close>

definition compute_hsize :: "int \<Rightarrow> int \<Rightarrow> int \<Rightarrow> exn + int" where
  "compute_hsize max_width original_width original_height =
     (case float_of_int original_width of
        Inl e \<Rightarrow> Inl e
      | Inr fw \<Rightarrow>
          (case float_of_int max_width of
             Inl e \<Rightarrow> Inl e
           | Inr fm \<Rightarrow>
               (case float_div fm fw of
                  Inl e \<Rightarrow> Inl e
                | Inr wpercent \<Rightarrow>
                    (case float_of_int original_height of
                       Inl e \<Rightarrow> Inl e
                     | Inr fh \<Rightarrow> int_of_float (float_mul fh wpercent)))))"

definition fit_width :: "env \<Rightarrow> image \<Rightarrow> int \<Rightarrow> exn + image" where
  "fit_width E img max_width =
     (let original_width = int (width img); original_height = int (height img)
      in if original_width > max_width then
           (case compute_hsize max_width original_width original_height of
              Inl e \<Rightarrow> Inl e
            | Inr hsize \<Rightarrow> resize E img max_width hsize)
         else Inr img)"

text \<open>The body of the \<open>try\<close> of \<open>process_image\<close>, from the decoded image to the one saved.\<close>

definition first_frame :: "env \<Rightarrow> image \<Rightarrow> image" where
  "first_frame E img = (if format img = Some ''GIF'' then convert E img ''RGB'' else img)"

definition force_rgb :: "env \<Rightarrow> image \<Rightarrow> image" where
  "force_rgb E img = (if mode img \<noteq> ''RGB'' \<and> mode img \<noteq> ''L'' then convert E img ''RGB'' else img)"

definition process_steps :: "env \<Rightarrow> image \<Rightarrow> int \<Rightarrow> bool \<Rightarrow> bool \<Rightarrow> exn + image" where
  "process_steps E img0 max_width rotate90 convert_to_bw =
     (let img1 = first_frame E img0
      in case (if has_alpha_mode img1 then white_background E img1 else Inr img1) of
           Inl e \<Rightarrow> Inl e
         | Inr img2 \<Rightarrow>
             (let img3 = force_rgb E img2;
                  img4 = (if rotate90 then transpose_ROTATE_90 img3 else img3)
              in case fit_width E img4 max_width of
                   Inl e \<Rightarrow> Inl e
                 | Inr img5 \<Rightarrow> Inr (if convert_to_bw then convert E img5 ''1'' else img5)))"

definition process_image :: "env \<Rightarrow> string \<Rightarrow> string \<Rightarrow> int \<Rightarrow> bool \<Rightarrow> bool \<Rightarrow> world
    \<Rightarrow> (exn + string) \<times> world" where
  "process_image E image_path' output_path max_width rotate90 convert_to_bw w =
     (case image_open w image_path' of
        Inl e \<Rightarrow> (Inl (ValueError (''Error processing image: '' @ str_exn e)), w)
      | Inr img \<Rightarrow>
          (case process_steps E img max_width rotate90 convert_to_bw of
             Inl e \<Rightarrow> (Inl (ValueError (''Error processing image: '' @ str_exn e)), w)
           | Inr out \<Rightarrow> (Inr output_path, image_save out output_path w)))"

section \<open>Banner renderer (services/text_renderer.py)\<close>

definition font_paths :: "string list" where
  "font_paths =
     [''/usr/share/fonts/truetype/dejavu/DejaVuSansMono.ttf'',
      ''/usr/share/fonts/truetype/liberation/LiberationMono-Regular.ttf'',
      ''/usr/share/fonts/truetype/freefont/FreeMono.ttf'',
      ''/usr/share/fonts/truetype/ubuntu/UbuntuMono-R.ttf'',
      ''/System/Library/Fonts/Courier.dfont'',
      ''C:'' @ [CHR 0x5C] @ ''Windows'' @ [CHR 0x5C] @ ''Fonts'' @ [CHR 0x5C] @ ''cour.ttf'']"

fun first_loadable :: "env \<Rightarrow> string list \<Rightarrow> int \<Rightarrow> font" where
  "first_loadable E [] sz = DefaultFont"
| "first_loadable E (font_path # rest) sz =
     (if path_exists E font_path \<and> truetype_loads E font_path sz then TrueType font_path sz
      else first_loadable E rest sz)"

definition find_monospace_font :: "env \<Rightarrow> int \<Rightarrow> font" where
  "find_monospace_font E sz = first_loadable E font_paths sz"

definition bbox_height :: "int \<times> int \<times> int \<times> int \<Rightarrow> int" where
  "bbox_height bbox = (case bbox of (x0, y0, x1, y1) \<Rightarrow> y1 - y0)"

definition bbox_width :: "int \<times> int \<times> int \<times> int \<Rightarrow> int" where
  "bbox_width bbox = (case bbox of (x0, y0, x1, y1) \<Rightarrow> x1 - x0)"

text \<open>The \<open>for\<close> loop of \<open>calculate_font_size\<close>, with the iterations that remain.\<close>

fun font_size_search :: "env \<Rightarrow> string \<Rightarrow> int \<Rightarrow> nat \<Rightarrow> int \<Rightarrow> int \<Rightarrow> int \<Rightarrow> int" where
  "font_size_search E text target_height 0 min_size max_size best_size = best_size"
| "font_size_search E text target_height (Suc n) min_size max_size best_size =
     (let mid_size = (min_size + max_size) div 2;
          text_height = bbox_height (textbbox E (find_monospace_font E mid_size) text)
      in if text_height < target_height then
           font_size_search E text target_height n (mid_size + 1) max_size mid_size
         else if text_height > target_height then
           font_size_search E text target_height n min_size (mid_size - 1) best_size
         else mid_size)"

definition calculate_font_size :: "env \<Rightarrow> string \<Rightarrow> int \<Rightarrow> int \<Rightarrow> int" where
  "calculate_font_size E text target_height max_iterations =
     font_size_search E text target_height (nat max_iterations) 10 500 50"

text \<open>\<open>int(dots_per_line * 0.7)\<close>.\<close>

definition banner_target_height :: "int \<Rightarrow> exn + int" where
  "banner_target_height dots_per_line =
     (case float_of_int dots_per_line of
        Inl e \<Rightarrow> Inl e
      | Inr d \<Rightarrow> int_of_float (float_mul d float_0_7))"

definition render_text_banner :: "env \<Rightarrow> string \<Rightarrow> string \<Rightarrow> int \<Rightarrow> world
    \<Rightarrow> (exn + string) \<times> world" where
  "render_text_banner E text output_path dots_per_line w =
     (if strip_is_empty text then (Inl (ValueError ''Text cannot be empty''), w)
      else
        (case banner_target_height dots_per_line of
           Inl e \<Rightarrow> (Inl e, w)
         | Inr target_height \<Rightarrow>
             (let fnt = find_monospace_font E (calculate_font_size E text target_height 20);
                  bbox = textbbox E fnt text;
                  text_width = bbox_width bbox;
                  text_height = bbox_height bbox;
                  margin_x = 20;
                  margin_y = (dots_per_line - text_height) div 2;
                  img_width = text_width + 2 * margin_x;
                  img_height = dots_per_line
              in case image_new ''RGB'' img_width img_height [255, 255, 255] of
                   Inl e \<Rightarrow> (Inl e, w)
                 | Inr blank \<Rightarrow>
                     (let drawn = blank\<lparr>pixels := draw_text E fnt text margin_x margin_y blank\<rparr>;
                          bw = convert E drawn ''1''
                      in (Inr output_path, image_save bw output_path w)))))"

section \<open>Protocol adapter (services/printer.py)\<close>

text \<open>
  \<open>bytes([n])\<close> raises \<open>ValueError\<close> unless \<open>0 \<le> n < 256\<close>.
\<close>

definition bytes1 :: "int \<Rightarrow> exn + nat list" where
  "bytes1 n = (if 0 \<le> n \<and> n < 256 then Inr [nat n]
               else Inl (ValueError ''bytes must be in range(0, 256)''))"

text \<open>
  \<open>size_byte = ((width - 1) << 4) | (height - 1)\<close> in \<open>_set_font_size\<close>, on Python's
  unbounded integers (\<open>w\<close> and \<open>h\<close> are the source's \<open>width\<close> and \<open>height\<close>).
\<close>

definition size_byte :: "int \<Rightarrow> int \<Rightarrow> int" where
  "size_byte w h = push_bit 4 (w - 1) OR (h - 1)"

text \<open>The two-byte command prefix \<open>GS !\<close>, that is \<open>b'\x1d\x21'\<close>.\<close>

definition GS_BANG :: "nat list" where
  "GS_BANG = [29, 33]"

text \<open>The command that \<open>_set_font_size\<close> sends after its reset: \<open>b'\x1d\x21' + bytes([size_byte])\<close>.\<close>

definition scale_command :: "int \<Rightarrow> int \<Rightarrow> exn + nat list" where
  "scale_command w h =
     (case bytes1 (size_byte w h) of
        Inl e \<Rightarrow> Inl e
      | Inr b \<Rightarrow> Inr (GS_BANG @ b))"

subsection \<open>Sequencing\<close>

text \<open>
  A statement that may raise and may change the state; \<open>then_do\<close> runs the next statement
  unless the first raised, \<open>lift\<close> is a computation that leaves the state alone, and
  \<open>reraise\<close> is \<open>except Exception as e: raise Exception(prefix + str(e))\<close>.
\<close>

definition then_do :: "(world \<Rightarrow> (exn + 'a) \<times> world) \<Rightarrow> ('a \<Rightarrow> world \<Rightarrow> (exn + 'b) \<times> world)
    \<Rightarrow> world \<Rightarrow> (exn + 'b) \<times> world" where
  "then_do m f w = (case m w of (Inl e, w1) \<Rightarrow> (Inl e, w1) | (Inr a, w1) \<Rightarrow> f a w1)"

definition lift :: "exn + 'a \<Rightarrow> world \<Rightarrow> (exn + 'a) \<times> world" where
  "lift r w = (r, w)"

definition reraise :: "string \<Rightarrow> exn + 'a \<Rightarrow> exn + 'a" where
  "reraise prefix r = (case r of Inl e \<Rightarrow> Inl (Exception (prefix @ str_exn e)) | Inr v \<Rightarrow> Inr v)"

subsection \<open>The connection\<close>

datatype printer = Usb int int | PrinterFile string

text \<open>One operation on the device: it happens, or the device refuses it with a message.\<close>

definition device_call :: "env \<Rightarrow> event \<Rightarrow> world \<Rightarrow> (exn + unit) \<times> world" where
  "device_call E ev w =
     (case device_error E (dev w) ev of
        None \<Rightarrow> (Inr (), w\<lparr>dev := dev w @ [Done ev]\<rparr>)
      | Some m \<Rightarrow> (Inl (OSError m), w\<lparr>dev := dev w @ [Failed ev m]\<rparr>))"

text \<open>The outer \<open>try\<close> of \<open>_connect_printer\<close>: parse both identifiers, open the USB device.\<close>

definition usb_attempt :: "env \<Rightarrow> world \<Rightarrow> (exn + printer) \<times> world" where
  "usb_attempt E w =
     (case int_base16 E (printer_vendor_id E) of
        Inl e \<Rightarrow> (Inl e, w)
      | Inr vendor_id \<Rightarrow>
          (case int_base16 E (printer_product_id E) of
             Inl e \<Rightarrow> (Inl e, w)
           | Inr product_id \<Rightarrow>
               (case device_call E (UsbOpen vendor_id product_id) w of
                  (Inl e, w1) \<Rightarrow> (Inl e, w1)
                | (Inr u, w1) \<Rightarrow> (Inr (Usb vendor_id product_id), w1))))"

text \<open>The inner \<open>try\<close>: open the file device.\<close>

definition file_attempt :: "env \<Rightarrow> world \<Rightarrow> (exn + printer) \<times> world" where
  "file_attempt E w =
     (case device_call E (FileOpen (printer_device_path E)) w of
        (Inl e, w1) \<Rightarrow> (Inl e, w1)
      | (Inr u, w1) \<Rightarrow> (Inr (PrinterFile (printer_device_path E)), w1))"

definition connect_printer :: "env \<Rightarrow> world \<Rightarrow> (exn + printer) \<times> world" where
  "connect_printer E w =
     (case usb_attempt E w of
        (Inr p, w1) \<Rightarrow> (Inr p, w1)
      | (Inl e, w1) \<Rightarrow>
          (case file_attempt E w1 of
             (Inr p, w2) \<Rightarrow> (Inr p, w2)
           | (Inl e2, w2) \<Rightarrow>
               (Inl (ConnectionError (''Failed to connect to printer: USB failed ('' @ str_exn e
                                      @ ''), File failed ('' @ str_exn e2 @ '')'')), w2)))"

text \<open>\<open>_close_printer\<close>: closes a printer that is there and swallows the failure.\<close>

definition close_printer :: "env \<Rightarrow> printer option \<Rightarrow> world \<Rightarrow> world" where
  "close_printer E p w = (case p of None \<Rightarrow> w | Some q \<Rightarrow> snd (device_call E DevClose w))"

subsection \<open>Feeding, cutting and the font scale\<close>

definition newline :: string where
  "newline = [CHR 0x0A]"

text \<open>\<open>for _ in range(n): printer.text("\n")\<close>.\<close>

fun feed :: "env \<Rightarrow> printer \<Rightarrow> nat \<Rightarrow> world \<Rightarrow> (exn + unit) \<times> world" where
  "feed E p 0 w = (Inr (), w)"
| "feed E p (Suc n) w =
     (case device_call E (DevText newline) w of
        (Inl e, w1) \<Rightarrow> (Inl e, w1)
      | (Inr u, w1) \<Rightarrow> feed E p n w1)"

definition feed_and_cut :: "env \<Rightarrow> printer \<Rightarrow> world \<Rightarrow> (exn + unit) \<times> world" where
  "feed_and_cut E p =
     (let feed_after = get_int E ''printer.feed_after_lines'' 3;
          cut_paper = get_bool E ''printer.cut_paper'' True
      in then_do (feed E p (nat feed_after))
           (\<lambda>u. if cut_paper then device_call E DevCut else lift (Inr ())))"

definition get_font_size_config :: "env \<Rightarrow> string \<Rightarrow> bool \<Rightarrow> int" where
  "get_font_size_config E fsize is_cowsay =
     get_int E (''fonts.'' @ fsize @ ''.'' @ (if is_cowsay then ''cowsay'' else ''text'')
                @ ''_chars_per_line'') 32"

definition RESET_1x1 :: "nat list" where
  "RESET_1x1 = GS_BANG @ [0]"

definition set_font_size :: "env \<Rightarrow> printer \<Rightarrow> string \<Rightarrow> world \<Rightarrow> (exn + unit) \<times> world" where
  "set_font_size E p fsize =
     (let w' = get_int E (''fonts.'' @ fsize @ ''.width'') 1;
          h' = get_int E (''fonts.'' @ fsize @ ''.height'') 1
      in then_do (device_call E (DevRaw RESET_1x1))
           (\<lambda>u. then_do (lift (scale_command w' h'))
                   (\<lambda>cmd. device_call E (DevRaw cmd))))"

definition reset_font_size :: "env \<Rightarrow> printer \<Rightarrow> world \<Rightarrow> (exn + unit) \<times> world" where
  "reset_font_size E p = device_call E (DevRaw RESET_1x1)"

subsection \<open>Banner printing\<close>

text \<open>
  \<open>_print_text_banner\<close> up to the connection: render to the temporary file, reopen it,
  turn it a quarter and save it under \<open>banner_<id>.png\<close>.
\<close>

definition banner_temp_path :: "env \<Rightarrow> int \<Rightarrow> string" where
  "banner_temp_path E job_id = path_join (store_path E) (''banner_temp_'' @ str_int job_id @ ''.png'')"

definition banner_path :: "env \<Rightarrow> int \<Rightarrow> string" where
  "banner_path E job_id = path_join (store_path E) (''banner_'' @ str_int job_id @ ''.png'')"

definition banner_artifact :: "env \<Rightarrow> int \<Rightarrow> string option \<Rightarrow> world \<Rightarrow> (exn + string) \<times> world" where
  "banner_artifact E job_id text =
     (let dots_per_line = get_int E ''printer.dots_per_line'' 384;
          temp_path = banner_temp_path E job_id;
          processed_path = banner_path E job_id
      in case text of
           None \<Rightarrow> lift (Inl (AttributeError ''NoneType object has no attribute strip''))
         | Some t \<Rightarrow>
             then_do (render_text_banner E t temp_path dots_per_line)
               (\<lambda>rendered w. case image_open w temp_path of
                     Inl e \<Rightarrow> (Inl e, w)
                   | Inr img \<Rightarrow> (Inr processed_path,
                                image_save (transpose_ROTATE_90 img) processed_path w)))"

text \<open>After the connection: feed, the image, feed and cut, and the temporary file removed.\<close>

definition banner_emit :: "env \<Rightarrow> printer \<Rightarrow> int \<Rightarrow> string \<Rightarrow> world \<Rightarrow> (exn + unit) \<times> world" where
  "banner_emit E p job_id processed_path =
     then_do (feed E p (nat (get_int E ''printer.feed_before_lines'' 1)))
       (\<lambda>u. then_do (device_call E (DevImage processed_path))
          (\<lambda>u. then_do (feed_and_cut E p)
             (\<lambda>u w. (Inr (), w\<lparr>fs := (fs w)(banner_temp_path E job_id := None)\<rparr>))))"

definition print_text_banner :: "env \<Rightarrow> int \<Rightarrow> string option \<Rightarrow> world \<Rightarrow> (exn + unit) \<times> world" where
  "print_text_banner E job_id text w =
     (case banner_artifact E job_id text w of
        (Inl e, w1) \<Rightarrow> (reraise ''Error printing banner: '' (Inl e), close_printer E None w1)
      | (Inr processed_path, w1) \<Rightarrow>
          (case connect_printer E w1 of
             (Inl e, w2) \<Rightarrow> (reraise ''Error printing banner: '' (Inl e), close_printer E None w2)
           | (Inr p, w2) \<Rightarrow>
               (case banner_emit E p job_id processed_path w2 of
                  (r, w3) \<Rightarrow> (reraise ''Error printing banner: '' r,
                              close_printer E (Some p) w3))))"

subsection \<open>Text printing\<close>

text \<open>The body of the \<open>try\<close> of \<open>print_text\<close> after the connection.\<close>

definition text_emit :: "env \<Rightarrow> printer \<Rightarrow> string option \<Rightarrow> string \<Rightarrow> bool \<Rightarrow> world
    \<Rightarrow> (exn + unit) \<times> world" where
  "text_emit E p text fsize use_cowsay =
     then_do (feed E p (nat (get_int E ''printer.feed_before_lines'' 1)))
       (\<lambda>u. then_do (lift (case text of
                              None \<Rightarrow> Inl (TypeError ''expected a string, got NoneType'')
                            | Some t \<Rightarrow> prepare_text_for_print E t
                                          (get_font_size_config E fsize use_cowsay) use_cowsay))
          (\<lambda>prepared_text. then_do (set_font_size E p fsize)
             (\<lambda>u. then_do (device_call E (DevText prepared_text))
                (\<lambda>u. then_do (device_call E (DevText newline))
                   (\<lambda>u. then_do (reset_font_size E p)
                      (\<lambda>u. feed_and_cut E p))))))"

definition print_text :: "env \<Rightarrow> int \<Rightarrow> string option \<Rightarrow> string \<Rightarrow> bool \<Rightarrow> world
    \<Rightarrow> (exn + unit) \<times> world" where
  "print_text E job_id text fsize use_cowsay w =
     (if fsize = ''banner'' then
        (case print_text_banner E job_id text w of
           (r, w1) \<Rightarrow> (reraise ''Error printing text: '' r, close_printer E None w1))
      else
        (case connect_printer E w of
           (Inl e, w1) \<Rightarrow> (reraise ''Error printing text: '' (Inl e), close_printer E None w1)
         | (Inr p, w1) \<Rightarrow>
             (case text_emit E p text fsize use_cowsay w1 of
                (r, w2) \<Rightarrow> (reraise ''Error printing text: '' r, close_printer E (Some p) w2))))"

subsection \<open>Image printing\<close>

text \<open>The caption block of \<open>print_image\<close>, entered when \<open>caption and not is_banner\<close>.\<close>

definition caption_emit :: "env \<Rightarrow> printer \<Rightarrow> string \<Rightarrow> string \<Rightarrow> world \<Rightarrow> (exn + unit) \<times> world" where
  "caption_emit E p caption fsize =
     then_do (device_call E (DevText newline))
       (\<lambda>u. then_do (set_font_size E p fsize)
          (\<lambda>u. then_do (lift (prepare_text_for_print E caption
                                 (get_font_size_config E fsize False) False))
             (\<lambda>prepared_caption. then_do (device_call E (DevText prepared_caption))
                (\<lambda>u. then_do (device_call E (DevText newline))
                   (\<lambda>u. reset_font_size E p)))))"

definition image_emit :: "env \<Rightarrow> printer \<Rightarrow> string option \<Rightarrow> string option \<Rightarrow> string \<Rightarrow> bool
    \<Rightarrow> world \<Rightarrow> (exn + unit) \<times> world" where
  "image_emit E p image_path' caption fsize is_banner =
     then_do (feed E p (nat (get_int E ''printer.feed_before_lines'' 1)))
       (\<lambda>u. case image_path' of
           None \<Rightarrow> lift (Inl (TypeError ''expected str, bytes or os.PathLike object, not NoneType''))
         | Some path \<Rightarrow>
             (let max_width = get_int E ''printer.dots_per_line'' 384;
                  processed_path = path_join (path_parent path) (''processed_'' @ path_name path)
              in then_do (process_image E path processed_path max_width is_banner True)
                   (\<lambda>saved. then_do (device_call E (DevImage processed_path))
                      (\<lambda>u. then_do
                         (case caption of
                            None \<Rightarrow> lift (Inr ())
                          | Some c \<Rightarrow> if c \<noteq> [] \<and> \<not> is_banner then caption_emit E p c fsize
                                       else lift (Inr ()))
                         (\<lambda>u. feed_and_cut E p)))))"

definition print_image :: "env \<Rightarrow> int \<Rightarrow> string option \<Rightarrow> string option \<Rightarrow> string \<Rightarrow> bool
    \<Rightarrow> world \<Rightarrow> (exn + unit) \<times> world" where
  "print_image E job_id image_path' caption fsize is_banner w =
     (case connect_printer E w of
        (Inl e, w1) \<Rightarrow> (reraise ''Error printing image: '' (Inl e), close_printer E None w1)
      | (Inr p, w1) \<Rightarrow>
          (case image_emit E p image_path' caption fsize is_banner w1 of
             (r, w2) \<Rightarrow> (reraise ''Error printing image: '' r, close_printer E (Some p) w2)))"

section \<open>Job orchestrator (process_job)\<close>

text \<open>\<open>job.font_size or "medium"\<close>.\<close>

definition font_size_or_medium :: "job \<Rightarrow> string" where
  "font_size_or_medium j =
     (case font_size j of None \<Rightarrow> ''medium'' | Some f \<Rightarrow> if f = [] then ''medium'' else f)"

text \<open>The \<open>if\<close>/\<open>elif\<close> chain on \<open>job.job_type\<close>.\<close>

definition dispatch :: "env \<Rightarrow> int \<Rightarrow> job \<Rightarrow> world \<Rightarrow> (exn + unit) \<times> world" where
  "dispatch E job_id j =
     (if job_type j = ''text'' then
        print_text E job_id (text_content j) (font_size_or_medium j) (content_type j = ''cowsay'')
      else if job_type j = ''image'' then
        print_image E job_id (image_path j) None (font_size_or_medium j) (content_type j = ''banner'')
      else if job_type j = ''text_with_image'' then
        print_image E job_id (image_path j) (text_content j) (font_size_or_medium j) False
      else lift (Inr ()))"

text \<open>An attribute assignment on the loaded row followed by \<open>db.commit()\<close>.\<close>

definition update_job :: "int \<Rightarrow> (job \<Rightarrow> job) \<Rightarrow> world \<Rightarrow> world" where
  "update_job job_id f w =
     (case db w job_id of None \<Rightarrow> w | Some j \<Rightarrow> w\<lparr>db := (db w)(job_id \<mapsto> f j)\<rparr>)"

text \<open>The body of the \<open>try\<close> of \<open>process_job\<close>.\<close>

definition process_job_try :: "env \<Rightarrow> int \<Rightarrow> world \<Rightarrow> (exn + unit) \<times> world" where
  "process_job_try E job_id w =
     (case db w job_id of
        None \<Rightarrow> (Inl (ValueError (''Job '' @ str_int job_id @ '' not found'')), w)
      | Some j \<Rightarrow>
          then_do (dispatch E job_id j)
            (\<lambda>u w2. (Inr (), update_job job_id
                               (\<lambda>r. r\<lparr>status := ''success'', completed_at := Some (utcnow w2)\<rparr>) w2))
            (update_job job_id (\<lambda>r. r\<lparr>status := ''processing''\<rparr>) w))"

text \<open>
  \<open>process_job\<close>: the \<open>except Exception\<close> handler looks the job up again and, if it is
  there, records the failure; nothing is raised again.
\<close>

definition process_job :: "env \<Rightarrow> int \<Rightarrow> world \<Rightarrow> (exn + unit) \<times> world" where
  "process_job E job_id w =
     (case process_job_try E job_id w of
        (Inr u, w1) \<Rightarrow> (Inr (), w1)
      | (Inl e, w1) \<Rightarrow>
          (Inr (), update_job job_id
                     (\<lambda>r. r\<lparr>status := ''failed'', error_message := Some (str_exn e),
                            completed_at := Some (utcnow w1)\<rparr>) w1))"

section \<open>Example environments\<close>

text \<open>
  An environment in which the device accepts everything, no cowsay is installed, no font file
  is found and the library transformations are trivial; the examples below vary it.
\<close>

definition example_env :: env where
  "example_env =
     \<lparr>printer_vendor_id = ''04b8'', printer_product_id = ''0e15'',
      printer_device_path = ''/dev/usb/lp0'', store_path = ''store'',
      yaml_int = Map.empty, yaml_bool = Map.empty,
      int_base16 = (\<lambda>s. if s = ''04b8'' then Inr 1208
                         else if s = ''0e15'' then Inr 3605
                         else Inl (ValueError ''invalid literal for int() with base 16'')),
      device_error = (\<lambda>history ev. None),
      which = (\<lambda>name. None),
      is_executable_file = (\<lambda>path. False),
      subprocess_run = (\<lambda>args. RunError ''not installed''),
      demojize = (\<lambda>t. t),
      unidecode = (\<lambda>t. t),
      textwrap_fill = (\<lambda>t n. if n \<le> 0 then Inl (ValueError ''invalid width (must be > 0)'') else Inr t),
      path_exists = (\<lambda>path. False),
      truetype_loads = (\<lambda>path sz. False),
      textbbox = (\<lambda>f t. (0, 0, 6 * int (length t), 11)),
      draw_text = (\<lambda>f t x y img. pixels img),
      pil_convert = (\<lambda>img m. pixels img),
      pil_resample = (\<lambda>img w h. replicate h (replicate w [0]))\<rparr>"

text \<open>The same with a device that refuses every operation.\<close>

definition offline_env :: env where
  "offline_env = example_env\<lparr>device_error := (\<lambda>history ev. Some ''device offline'')\<rparr>"

definition empty_world :: world where
  "empty_world = \<lparr>db = Map.empty, fs = Map.empty, dev = [], utcnow = 1000\<rparr>"

definition example_job :: job where
  "example_job =
     \<lparr>job_type = ''text'', content_type = ''plain'', text_content = Some ''hi'',
      image_path = None, font_size = Some ''medium'', status = ''pending'',
      error_message = None, completed_at = None\<rparr>"

definition example_world :: world where
  "example_world = empty_world\<lparr>db := [1 \<mapsto> example_job]\<rparr>"

section \<open>Vocabulary of the properties\<close>

text \<open>The operation an entry of the device record is about.\<close>

fun event_of :: "entry \<Rightarrow> event" where
  "event_of (Done ev) = ev"
| "event_of (Failed ev m) = ev"

fun is_usb_open :: "entry \<Rightarrow> bool" where
  "is_usb_open (Done (UsbOpen v p)) = True"
| "is_usb_open (Failed (UsbOpen v p) m) = True"
| "is_usb_open e = False"

fun is_open :: "entry \<Rightarrow> bool" where
  "is_open (Done (UsbOpen v p)) = True"
| "is_open (Failed (UsbOpen v p) m) = True"
| "is_open (Done (FileOpen path)) = True"
| "is_open (Failed (FileOpen path) m) = True"
| "is_open e = False"

text \<open>
  The external generator is unavailable for a call: it is not found, it times out, it exits
  with a nonzero code, or running it raises.
\<close>

definition generator_unavailable :: "env \<Rightarrow> string \<Rightarrow> int \<Rightarrow> bool" where
  "generator_unavailable E text max_width =
     (case find_cowsay_command E of
        None \<Rightarrow> True
      | Some cowsay_cmd \<Rightarrow>
          (case subprocess_run E [cowsay_cmd, ''-W'', str_int max_width, encode_for_escpos E text] of
             Completed returncode out err \<Rightarrow> returncode \<noteq> 0
           | TimeoutExpired \<Rightarrow> True
           | RunError m \<Rightarrow> True))"

text \<open>
  The size bytes of the font-scale commands among the operations the device carried out:
  for each \<open>GS ! n\<close> sent through \<open>_raw\<close>, the byte \<open>n\<close>.
\<close>

fun scale_byte_of :: "entry \<Rightarrow> nat list" where
  "scale_byte_of (Done (DevRaw bs)) = (if take 2 bs = GS_BANG then drop 2 bs else [])"
| "scale_byte_of e = []"

definition scale_bytes :: "entry list \<Rightarrow> nat list" where
  "scale_bytes es = concat (map scale_byte_of es)"

text \<open>The entries that feeding before and feeding after with a cut leave when nothing fails.\<close>

definition fed_before :: "env \<Rightarrow> entry list" where
  "fed_before E = replicate (nat (get_int E ''printer.feed_before_lines'' 1)) (Done (DevText newline))"

definition fed_after_and_cut :: "env \<Rightarrow> entry list" where
  "fed_after_and_cut E =
     replicate (nat (get_int E ''printer.feed_after_lines'' 3)) (Done (DevText newline))
     @ (if get_bool E ''printer.cut_paper'' True then [Done DevCut] else [])"

text \<open>The size byte that the configuration gives a font size.\<close>

definition configured_size_byte :: "env \<Rightarrow> string \<Rightarrow> nat" where
  "configured_size_byte E fsize =
     nat (size_byte (get_int E (''fonts.'' @ fsize @ ''.width'') 1)
                    (get_int E (''fonts.'' @ fsize @ ''.height'') 1))"

text \<open>Further examples: a double-size font, a stored picture, a narrow printer.\<close>

definition large_env :: env where
  "large_env = example_env\<lparr>yaml_int := [''fonts.large.width'' \<mapsto> 2, ''fonts.large.height'' \<mapsto> 2]\<rparr>"

definition example_image :: image where
  "example_image =
     \<lparr>format = Some ''PNG'', mode = ''RGB'', width = 2, height = 1, palette = [],
      pixels = [[[0, 0, 0], [255, 255, 255]]]\<rparr>"

definition photo_world :: world where
  "photo_world = empty_world\<lparr>fs := [''store/cat.png'' \<mapsto> example_image]\<rparr>"

definition narrow_env :: env where
  "narrow_env = example_env\<lparr>yaml_int := [''printer.dots_per_line'' \<mapsto> 10]\<rparr>"

section \<open>Properties\<close>

subsection \<open>The size byte\<close>

lemma size_byte_cases:
  assumes "1 \<le> w" "w \<le> 8" "1 \<le> h" "h \<le> 8"
  shows "size_byte w h = 16 * (w - 1) + (h - 1)
       \<and> take_bit 3 (drop_bit 4 (size_byte w h)) = w - 1
       \<and> take_bit 3 (size_byte w h) = h - 1"
proof -
  have W: "w = 1 \<or> w = 2 \<or> w = 3 \<or> w = 4 \<or> w = 5 \<or> w = 6 \<or> w = 7 \<or> w = 8"
    using assms by arith
  have H: "h = 1 \<or> h = 2 \<or> h = 3 \<or> h = 4 \<or> h = 5 \<or> h = 6 \<or> h = 7 \<or> h = 8"
    using assms by arith
  show ?thesis
    using W H by (elim disjE) (simp_all add: size_byte_def)
qed

text \<open>
  C4. For width and height multipliers between 1 and 8, the command that \<open>_set_font_size\<close>
  sends is \<open>GS !\<close> followed by one size byte; bits 4 to 6 of that byte are the width
  multiplier minus one, bits 0 to 2 are the height multiplier minus one, and bits 3 and 7
  are clear (the byte is \<open>16 * (w - 1) + (h - 1)\<close>).
\<close>

theorem size_byte_layout:
  assumes "1 \<le> w" "w \<le> 8" "1 \<le> h" "h \<le> 8"
  shows "scale_command w h = Inr [29, 33, nat (size_byte w h)]
       \<and> take_bit 3 (drop_bit 4 (size_byte w h)) = w - 1
       \<and> take_bit 3 (size_byte w h) = h - 1
       \<and> size_byte w h = 16 * (w - 1) + (h - 1)"
proof -
  note all = size_byte_cases [OF assms]
  have c: "size_byte w h = 16 * (w - 1) + (h - 1)"
    by (rule all [THEN conjunct1])
  have hi: "take_bit 3 (drop_bit 4 (size_byte w h)) = w - 1"
    by (rule all [THEN conjunct2, THEN conjunct1])
  have lo: "take_bit 3 (size_byte w h) = h - 1"
    by (rule all [THEN conjunct2, THEN conjunct2])
  have "0 \<le> size_byte w h \<and> size_byte w h < 256"
    using c assms by arith
  then have "scale_command w h = Inr [29, 33, nat (size_byte w h)]"
    by (simp add: scale_command_def bytes1_def GS_BANG_def)
  with c hi lo show ?thesis by simp
qed

theorem size_byte_layout_witness:
  "scale_command 2 3 = Inr [29, 33, 18]
   \<and> take_bit 3 (drop_bit 4 (size_byte 2 3)) = (1::int)
   \<and> take_bit 3 (size_byte 2 3) = (2::int)"
  using size_byte_layout [of 2 3] by (simp add: size_byte_def)

subsection \<open>Sequencing and device calls\<close>

lemma then_do_Inr:
  "then_do m f w = (Inr b, w') \<longleftrightarrow> (\<exists>a w1. m w = (Inr a, w1) \<and> f a w1 = (Inr b, w'))"
  by (auto simp add: then_do_def split: prod.splits sum.splits)

lemma then_do_Inl:
  "then_do m f w = (Inl e, w') \<longleftrightarrow>
     m w = (Inl e, w') \<or> (\<exists>a w1. m w = (Inr a, w1) \<and> f a w1 = (Inl e, w'))"
  by (auto simp add: then_do_def split: prod.splits sum.splits)

lemma lift_eq: "lift r w = (r', w') \<longleftrightarrow> r = r' \<and> w = w'"
  by (auto simp add: lift_def)

lemma device_call_Inr:
  "device_call E ev w = (Inr u, w') \<longleftrightarrow>
     device_error E (dev w) ev = None \<and> w' = w\<lparr>dev := dev w @ [Done ev]\<rparr>"
  by (auto simp add: device_call_def split: option.splits)

lemma device_call_Inl:
  "device_call E ev w = (Inl e, w') \<longleftrightarrow>
     (\<exists>m. device_error E (dev w) ev = Some m \<and> e = OSError m
          \<and> w' = w\<lparr>dev := dev w @ [Failed ev m]\<rparr>)"
  by (auto simp add: device_call_def split: option.splits)

lemma device_call_cases:
  obtains "device_error E (dev w) ev = None" "device_call E ev w = (Inr (), w\<lparr>dev := dev w @ [Done ev]\<rparr>)"
  | m where "device_error E (dev w) ev = Some m"
      "device_call E ev w = (Inl (OSError m), w\<lparr>dev := dev w @ [Failed ev m]\<rparr>)"
  by (cases "device_error E (dev w) ev") (auto simp add: device_call_def)

subsection \<open>The connection strategy\<close>

lemma usb_attempt_trace:
  "\<exists>es. snd (usb_attempt E w) = w\<lparr>dev := dev w @ es\<rparr> \<and> list_all is_usb_open es"
proof (cases "int_base16 E (printer_vendor_id E)")
  case (Inl e)
  then have "snd (usb_attempt E w) = w\<lparr>dev := dev w @ []\<rparr>"
    by (simp add: usb_attempt_def)
  then show ?thesis by (intro exI [of _ "[]"]) simp
next
  case v: (Inr vendor_id)
  show ?thesis
  proof (cases "int_base16 E (printer_product_id E)")
    case (Inl e)
    with v have "snd (usb_attempt E w) = w\<lparr>dev := dev w @ []\<rparr>"
      by (simp add: usb_attempt_def)
    then show ?thesis by (intro exI [of _ "[]"]) simp
  next
    case p: (Inr product_id)
    show ?thesis
    proof (cases rule: device_call_cases [of E w "UsbOpen vendor_id product_id"])
      case 1
      with v p have "snd (usb_attempt E w) = w\<lparr>dev := dev w @ [Done (UsbOpen vendor_id product_id)]\<rparr>"
        by (simp add: usb_attempt_def)
      then show ?thesis by (intro exI [of _ "[Done (UsbOpen vendor_id product_id)]"]) simp
    next
      case (2 m)
      with v p have "snd (usb_attempt E w) = w\<lparr>dev := dev w @ [Failed (UsbOpen vendor_id product_id) m]\<rparr>"
        by (simp add: usb_attempt_def)
      then show ?thesis by (intro exI [of _ "[Failed (UsbOpen vendor_id product_id) m]"]) simp
    qed
  qed
qed

lemma file_attempt_trace:
  "\<exists>en. snd (file_attempt E w) = w\<lparr>dev := dev w @ [en]\<rparr>
        \<and> event_of en = FileOpen (printer_device_path E)"
proof (cases rule: device_call_cases [of E w "FileOpen (printer_device_path E)"])
  case 1
  then have "snd (file_attempt E w) = w\<lparr>dev := dev w @ [Done (FileOpen (printer_device_path E))]\<rparr>"
    by (simp add: file_attempt_def)
  then show ?thesis by (intro exI [of _ "Done (FileOpen (printer_device_path E))"]) simp
next
  case (2 m)
  then have "snd (file_attempt E w) = w\<lparr>dev := dev w @ [Failed (FileOpen (printer_device_path E)) m]\<rparr>"
    by (simp add: file_attempt_def)
  then show ?thesis by (intro exI [of _ "Failed (FileOpen (printer_device_path E)) m"]) simp
qed

text \<open>
  C5. Connecting runs the USB attempt first; only when that attempt raises does the file
  attempt run, in the state the USB attempt left. \<open>ConnectionError\<close> is raised exactly
  when both attempts raise, and its message holds both causes. The USB attempt records only
  USB openings, the file attempt exactly one opening of the configured device path.
\<close>

theorem connect_printer_strategy:
  assumes "usb_attempt E w = (r1, w1)" and "file_attempt E w1 = (r2, w2)"
  shows "(case r1 of
            Inr p \<Rightarrow> connect_printer E w = (Inr p, w1)
          | Inl e \<Rightarrow>
              (case r2 of
                 Inr p \<Rightarrow> connect_printer E w = (Inr p, w2)
               | Inl e2 \<Rightarrow>
                   connect_printer E w =
                     (Inl (ConnectionError (''Failed to connect to printer: USB failed ('' @ str_exn e
                                            @ ''), File failed ('' @ str_exn e2 @ '')'')), w2)))
       \<and> ((\<exists>err. fst (connect_printer E w) = Inl err) \<longleftrightarrow> isl r1 \<and> isl r2)
       \<and> (\<exists>es. w1 = w\<lparr>dev := dev w @ es\<rparr> \<and> list_all is_usb_open es)
       \<and> (\<exists>en. w2 = w1\<lparr>dev := dev w1 @ [en]\<rparr> \<and> event_of en = FileOpen (printer_device_path E))"
proof -
  have a: "case r1 of
            Inr p \<Rightarrow> connect_printer E w = (Inr p, w1)
          | Inl e \<Rightarrow>
              (case r2 of
                 Inr p \<Rightarrow> connect_printer E w = (Inr p, w2)
               | Inl e2 \<Rightarrow>
                   connect_printer E w =
                     (Inl (ConnectionError (''Failed to connect to printer: USB failed ('' @ str_exn e
                                            @ ''), File failed ('' @ str_exn e2 @ '')'')), w2))"
    using assms by (simp add: connect_printer_def split: sum.splits)
  have b: "(\<exists>err. fst (connect_printer E w) = Inl err) \<longleftrightarrow> isl r1 \<and> isl r2"
    using assms by (auto simp add: connect_printer_def split: sum.splits)
  have c: "\<exists>es. w1 = w\<lparr>dev := dev w @ es\<rparr> \<and> list_all is_usb_open es"
    using usb_attempt_trace [of E w] assms(1) by simp
  have d: "\<exists>en. w2 = w1\<lparr>dev := dev w1 @ [en]\<rparr> \<and> event_of en = FileOpen (printer_device_path E)"
    using file_attempt_trace [of E w1] assms(2) by simp
  from a b c d show ?thesis by blast
qed

theorem connect_printer_strategy_witness:
  "connect_printer offline_env empty_world =
     (Inl (ConnectionError ''Failed to connect to printer: USB failed (device offline), File failed (device offline)''),
      empty_world\<lparr>dev := [Failed (UsbOpen 1208 3605) ''device offline'',
                           Failed (FileOpen ''/dev/usb/lp0'') ''device offline'']\<rparr>)"
proof -
  have u: "usb_attempt offline_env empty_world =
      (Inl (OSError ''device offline''), empty_world\<lparr>dev := [Failed (UsbOpen 1208 3605) ''device offline'']\<rparr>)"
    by (simp add: usb_attempt_def device_call_def offline_env_def example_env_def empty_world_def)
  have f: "file_attempt offline_env (empty_world\<lparr>dev := [Failed (UsbOpen 1208 3605) ''device offline'']\<rparr>) =
      (Inl (OSError ''device offline''),
       empty_world\<lparr>dev := [Failed (UsbOpen 1208 3605) ''device offline'',
                           Failed (FileOpen ''/dev/usb/lp0'') ''device offline'']\<rparr>)"
    by (simp add: file_attempt_def device_call_def offline_env_def example_env_def empty_world_def)
  show ?thesis
    using connect_printer_strategy [OF u f] by simp
qed

subsection \<open>Stylized text\<close>

text \<open>
  C8. When the external generator is unavailable, \<open>generate_cowsay\<close> absorbs the failure
  (it returns \<open>None\<close>, nothing is raised) and the stylized preparation gives exactly
  what the plain preparation gives.
\<close>

theorem stylized_fallback:
  assumes "generator_unavailable E text max_width"
  shows "generate_cowsay E text max_width = None
       \<and> prepare_text_for_print E text max_width True = prepare_text_for_print E text max_width False"
  using assms
  by (auto simp add: generator_unavailable_def generate_cowsay_def prepare_text_for_print_def
      split: option.splits run_result.splits)

theorem stylized_fallback_witness:
  "generator_unavailable example_env ''moo'' 20
   \<and> prepare_text_for_print example_env ''moo'' 20 True = Inr ''moo''
   \<and> prepare_text_for_print example_env ''moo'' 20 False = Inr ''moo''"
proof -
  have u: "generator_unavailable example_env ''moo'' 20"
    by (simp add: generator_unavailable_def find_cowsay_command_def example_env_def common_paths_def)
  have p: "prepare_text_for_print example_env ''moo'' 20 False = Inr ''moo''"
    by (simp add: prepare_text_for_print_def wrap_text_for_printer_def encode_for_escpos_def
        convert_emojis_to_text_def strip_is_empty_def is_space_def example_env_def)
  show ?thesis
    using stylized_fallback [OF u] u p by simp
qed

subsection \<open>Unknown job ids\<close>

text \<open>
  C10. Processing an id that matches no stored job returns normally and leaves the whole
  state as it was: no job row is touched and nothing is sent to the device.
\<close>

theorem process_job_unknown_id:
  assumes "db w job_id = None"
  shows "process_job E job_id w = (Inr (), w)"
  using assms by (simp add: process_job_def process_job_try_def update_job_def)

theorem process_job_unknown_id_witness:
  "db example_world 7 = None \<and> process_job example_env 7 example_world = (Inr (), example_world)"
proof -
  have h: "db example_world 7 = None"
    by (simp add: example_world_def)
  show ?thesis
    using process_job_unknown_id [OF h, of example_env] h by simp
qed

subsection \<open>Printing leaves the job table alone\<close>

lemma device_call_db: "db (snd (device_call E ev w)) = db w"
  by (simp add: device_call_def split: option.splits)

lemma then_do_db:
  assumes "\<And>w. db (snd (m w)) = db w" and "\<And>a w. db (snd (f a w)) = db w"
  shows "db (snd (then_do m f w)) = db w"
proof (cases "m w")
  case (Pair r w1)
  have w1: "db w1 = db w" using assms(1) [of w] Pair by simp
  show ?thesis
  proof (cases r)
    case (Inl e)
    with Pair w1 show ?thesis by (simp add: then_do_def)
  next
    case (Inr a)
    with Pair w1 assms(2) [of a w1] show ?thesis by (simp add: then_do_def)
  qed
qed

lemma lift_db: "db (snd (lift r w)) = db w"
  by (simp add: lift_def)

lemma feed_db: "db (snd (feed E p n w)) = db w"
proof (induction n arbitrary: w)
  case 0
  show ?case by simp
next
  case (Suc n)
  show ?case
  proof (cases "device_call E (DevText newline) w")
    case (Pair r w1)
    have "db w1 = db w" using device_call_db [of E "DevText newline" w] Pair by simp
    with Pair Suc show ?thesis by (cases r) simp_all
  qed
qed

lemma feed_and_cut_db: "db (snd (feed_and_cut E p w)) = db w"
  unfolding feed_and_cut_def Let_def
  by (intro then_do_db) (simp_all add: feed_db device_call_db lift_db)

lemma set_font_size_db: "db (snd (set_font_size E p fsize w)) = db w"
  unfolding set_font_size_def Let_def
  by (intro then_do_db) (simp_all add: device_call_db lift_db)

lemma reset_font_size_db: "db (snd (reset_font_size E p w)) = db w"
  by (simp add: reset_font_size_def device_call_db)

lemma connect_printer_db: "db (snd (connect_printer E w)) = db w"
proof -
  obtain es where u: "snd (usb_attempt E w) = w\<lparr>dev := dev w @ es\<rparr>"
    using usb_attempt_trace [of E w] by blast
  obtain en where f: "snd (file_attempt E (snd (usb_attempt E w))) =
      (snd (usb_attempt E w))\<lparr>dev := dev (snd (usb_attempt E w)) @ [en]\<rparr>"
    using file_attempt_trace [of E "snd (usb_attempt E w)"] by blast
  show ?thesis
    using u f by (auto simp add: connect_printer_def split: prod.splits sum.splits)
qed

lemma close_printer_db: "db (close_printer E p w) = db w"
  by (simp add: close_printer_def device_call_db split: option.splits)

lemma image_save_db: "db (image_save img path w) = db w"
  by (simp add: image_save_def)

lemma process_image_db: "db (snd (process_image E path out max_width rot bw w)) = db w"
  by (simp add: process_image_def image_save_db split: sum.splits)

lemma render_text_banner_db: "db (snd (render_text_banner E text out dots w)) = db w"
  by (simp add: render_text_banner_def Let_def image_save_db split: sum.splits)

lemma banner_artifact_db: "db (snd (banner_artifact E job_id text w)) = db w"
proof (cases "text")
  case None
  then show ?thesis by (simp add: banner_artifact_def Let_def lift_db)
next
  case (Some t)
  then show ?thesis
    unfolding banner_artifact_def Let_def
    by (simp, intro then_do_db) (simp_all add: render_text_banner_db image_save_db split: sum.splits)
qed

lemma banner_emit_db: "db (snd (banner_emit E p job_id path w)) = db w"
  unfolding banner_emit_def
  by (intro then_do_db) (simp_all add: feed_db device_call_db feed_and_cut_db)

lemma print_text_banner_db: "db (snd (print_text_banner E job_id text w)) = db w"
proof (cases "banner_artifact E job_id text w")
  case a: (Pair r1 w1)
  have w1: "db w1 = db w" using banner_artifact_db [of E job_id "text" w] a by simp
  show ?thesis
  proof (cases r1)
    case (Inl e)
    with a w1 show ?thesis by (simp add: print_text_banner_def close_printer_db)
  next
    case path: (Inr processed_path)
    show ?thesis
    proof (cases "connect_printer E w1")
      case c: (Pair r2 w2)
      have w2: "db w2 = db w1" using connect_printer_db [of E w1] c by simp
      show ?thesis
      proof (cases r2)
        case (Inl e)
        with a path c w1 w2 show ?thesis by (simp add: print_text_banner_def close_printer_db)
      next
        case (Inr p)
        obtain r3 w3 where e: "banner_emit E p job_id processed_path w2 = (r3, w3)"
          by (cases "banner_emit E p job_id processed_path w2")
        have "db w3 = db w2" using banner_emit_db [of E p job_id processed_path w2] e by simp
        with a path c Inr e w1 w2 show ?thesis by (simp add: print_text_banner_def close_printer_db)
      qed
    qed
  qed
qed

lemma text_emit_db: "db (snd (text_emit E p text fsize use_cowsay w)) = db w"
  unfolding text_emit_def
  by (intro then_do_db)
     (simp_all add: feed_db device_call_db feed_and_cut_db lift_db set_font_size_db reset_font_size_db)

lemma print_text_db: "db (snd (print_text E job_id text fsize use_cowsay w)) = db w"
proof (cases "fsize = ''banner''")
  case True
  then show ?thesis
    using print_text_banner_db [of E job_id "text" w]
    by (auto simp add: print_text_def close_printer_db split: prod.splits)
next
  case False
  show ?thesis
  proof (cases "connect_printer E w")
    case c: (Pair r1 w1)
    have w1: "db w1 = db w" using connect_printer_db [of E w] c by simp
    show ?thesis
    proof (cases r1)
      case (Inl e)
      with False c w1 show ?thesis by (simp add: print_text_def close_printer_db)
    next
      case (Inr p)
      obtain r2 w2 where e: "text_emit E p text fsize use_cowsay w1 = (r2, w2)"
        by (cases "text_emit E p text fsize use_cowsay w1")
      have "db w2 = db w1" using text_emit_db [of E p "text" fsize use_cowsay w1] e by simp
      with False c Inr e w1 show ?thesis by (simp add: print_text_def close_printer_db)
    qed
  qed
qed

lemma caption_emit_db: "db (snd (caption_emit E p caption fsize w)) = db w"
  unfolding caption_emit_def
  by (intro then_do_db)
     (simp_all add: device_call_db lift_db set_font_size_db reset_font_size_db)

lemma image_emit_db: "db (snd (image_emit E p path caption fsize is_banner w)) = db w"
  unfolding image_emit_def Let_def
  apply (intro then_do_db)
   apply (simp add: feed_db)
  apply (cases path)
   apply (simp add: lift_db)
  apply simp
  apply (intro then_do_db)
     apply (simp_all add: process_image_db device_call_db feed_and_cut_db lift_db caption_emit_db split: option.splits)
  done

lemma print_image_db: "db (snd (print_image E job_id path caption fsize is_banner w)) = db w"
proof (cases "connect_printer E w")
  case c: (Pair r1 w1)
  have w1: "db w1 = db w" using connect_printer_db [of E w] c by simp
  show ?thesis
  proof (cases r1)
    case (Inl e)
    with c w1 show ?thesis by (simp add: print_image_def close_printer_db)
  next
    case (Inr p)
    obtain r2 w2 where e: "image_emit E p path caption fsize is_banner w1 = (r2, w2)"
      by (cases "image_emit E p path caption fsize is_banner w1")
    have "db w2 = db w1" using image_emit_db [of E p path caption fsize is_banner w1] e by simp
    with c Inr e w1 show ?thesis by (simp add: print_image_def close_printer_db)
  qed
qed

lemma dispatch_db: "db (snd (dispatch E job_id j w)) = db w"
  by (simp add: dispatch_def print_text_db print_image_db lift_db)

subsection \<open>Failure isolation\<close>

text \<open>
  C2. If printing a stored job raises an exception \<open>e\<close>, at any point of rendering or of
  device emission, then \<open>process_job\<close> returns normally, and the job's row is the
  original row with status \<open>failed\<close>, the message \<open>str(e)\<close> and the completion time
  set; nothing else in the table changes.
\<close>

theorem process_job_records_failure:
  assumes "db w job_id = Some j"
    and "dispatch E job_id j (update_job job_id (\<lambda>r. r\<lparr>status := ''processing''\<rparr>) w) = (Inl e, w1)"
  shows "process_job E job_id w =
           (Inr (), w1\<lparr>db := (db w)(job_id \<mapsto>
                      j\<lparr>status := ''failed'', error_message := Some (str_exn e),
                        completed_at := Some (utcnow w1)\<rparr>)\<rparr>)"
proof -
  let ?w0 = "update_job job_id (\<lambda>r. r\<lparr>status := ''processing''\<rparr>) w"
  have w0: "db ?w0 = (db w)(job_id \<mapsto> j\<lparr>status := ''processing''\<rparr>)"
    using assms(1) by (simp add: update_job_def)
  have "db w1 = db ?w0"
    using dispatch_db [of E job_id j ?w0] assms(2) by simp
  with w0 have w1: "db w1 = (db w)(job_id \<mapsto> j\<lparr>status := ''processing''\<rparr>)"
    by simp
  have t: "process_job_try E job_id w = (Inl e, w1)"
    using assms by (simp add: process_job_try_def then_do_def)
  show ?thesis
    using t w1 by (simp add: process_job_def update_job_def)
qed

text \<open>The definitions that evaluate a job against the offline device.\<close>

lemmas run_offline =
  dispatch_def example_job_def font_size_or_medium_def print_text_def connect_printer_def
  usb_attempt_def file_attempt_def device_call_def offline_env_def example_env_def reraise_def
  close_printer_def update_job_def example_world_def empty_world_def

theorem process_job_records_failure_witness:
  "process_job offline_env 1 example_world =
     (Inr (),
      example_world\<lparr>db := [1 \<mapsto> example_job\<lparr>status := ''failed'',
          error_message := Some ''Error printing text: Failed to connect to printer: USB failed (device offline), File failed (device offline)'',
          completed_at := Some 1000\<rparr>],
        dev := [Failed (UsbOpen 1208 3605) ''device offline'',
                Failed (FileOpen ''/dev/usb/lp0'') ''device offline'']\<rparr>)"
proof -
  have h1: "db example_world 1 = Some example_job"
    by (simp add: example_world_def)
  have h2: "dispatch offline_env 1 example_job
              (update_job 1 (\<lambda>r. r\<lparr>status := ''processing''\<rparr>) example_world) =
            (Inl (Exception ''Error printing text: Failed to connect to printer: USB failed (device offline), File failed (device offline)''),
             example_world\<lparr>db := [1 \<mapsto> example_job\<lparr>status := ''processing''\<rparr>],
               dev := [Failed (UsbOpen 1208 3605) ''device offline'',
                       Failed (FileOpen ''/dev/usb/lp0'') ''device offline'']\<rparr>)"
    by (simp add: run_offline)
  show ?thesis
    using process_job_records_failure [OF h1 h2]
    by (simp add: example_world_def empty_world_def)
qed

subsection \<open>What a successful print sends\<close>

lemma feed_Inr:
  "feed E p n w = (Inr u, w') \<Longrightarrow> w' = w\<lparr>dev := dev w @ replicate n (Done (DevText newline))\<rparr>"
proof (induction n arbitrary: w)
  case 0
  then show ?case by simp
next
  case (Suc n)
  from Suc.prems obtain w1 where
    c: "device_call E (DevText newline) w = (Inr (), w1)" and f: "feed E p n w1 = (Inr u, w')"
    by (auto split: prod.splits sum.splits)
  from c have w1: "w1 = w\<lparr>dev := dev w @ [Done (DevText newline)]\<rparr>"
    by (simp add: device_call_Inr)
  from Suc.IH [OF f] w1 show ?case
    by (simp add: replicate_app_Cons_same)
qed

lemma feed_and_cut_Inr:
  assumes "feed_and_cut E p w = (Inr u, w')"
  shows "w' = w\<lparr>dev := dev w @ fed_after_and_cut E\<rparr>"
proof -
  from assms obtain w1 where
    f: "feed E p (nat (get_int E ''printer.feed_after_lines'' 3)) w = (Inr (), w1)"
    and c: "(if get_bool E ''printer.cut_paper'' True then device_call E DevCut else lift (Inr ())) w1
              = (Inr u, w')"
    by (auto simp add: feed_and_cut_def Let_def then_do_Inr)
  note w1 = feed_Inr [OF f]
  show ?thesis
  proof (cases "get_bool E ''printer.cut_paper'' True")
    case True
    with c have "w' = w1\<lparr>dev := dev w1 @ [Done DevCut]\<rparr>"
      by (simp add: device_call_Inr)
    with w1 True show ?thesis by (simp add: fed_after_and_cut_def)
  next
    case False
    with c have "w' = w1" by (auto simp add: lift_eq)
    with w1 False show ?thesis by (simp add: fed_after_and_cut_def)
  qed
qed

lemma set_font_size_Inr:
  assumes "set_font_size E p fsize w = (Inr u, w')"
  shows "\<exists>cmd. scale_command (get_int E (''fonts.'' @ fsize @ ''.width'') 1)
                  (get_int E (''fonts.'' @ fsize @ ''.height'') 1) = Inr cmd
             \<and> w' = w\<lparr>dev := dev w @ [Done (DevRaw RESET_1x1), Done (DevRaw cmd)]\<rparr>"
  using assms
  by (auto simp add: set_font_size_def Let_def then_do_Inr device_call_Inr lift_eq)

lemma connect_printer_Inr:
  assumes "connect_printer E w = (Inr p, w')"
  shows "\<exists>opens. w' = w\<lparr>dev := dev w @ opens\<rparr> \<and> list_all is_open opens"
proof -
  obtain r1 w1 where u: "usb_attempt E w = (r1, w1)" by (cases "usb_attempt E w")
  obtain r2 w2 where f: "file_attempt E w1 = (r2, w2)" by (cases "file_attempt E w1")
  obtain es where es: "w1 = w\<lparr>dev := dev w @ es\<rparr>" "list_all is_usb_open es"
    using usb_attempt_trace [of E w] u by auto
  obtain en where en: "w2 = w1\<lparr>dev := dev w1 @ [en]\<rparr>" "event_of en = FileOpen (printer_device_path E)"
    using file_attempt_trace [of E w1] f by auto
  have o1: "list_all is_open es"
    using es(2) by (induction es) (auto elim: is_usb_open.elims)
  have o2: "is_open en"
    using en(2) by (cases en) auto
  show ?thesis
  proof (cases r1)
    case (Inr q)
    with u assms have "w' = w1" by (simp add: connect_printer_def)
    with es o1 show ?thesis by blast
  next
    case (Inl e)
    with u f assms have "w' = w2" by (auto simp add: connect_printer_def split: sum.splits)
    with es en have "w' = w\<lparr>dev := dev w @ (es @ [en])\<rparr>" by simp
    moreover have "list_all is_open (es @ [en])" using o1 o2 by simp
    ultimately show ?thesis by blast
  qed
qed

lemma close_printer_Some:
  "\<exists>closing. close_printer E (Some p) w = w\<lparr>dev := dev w @ [closing]\<rparr> \<and> event_of closing = DevClose"
proof (cases rule: device_call_cases [of E w DevClose])
  case 1
  then have "close_printer E (Some p) w = w\<lparr>dev := dev w @ [Done DevClose]\<rparr>"
    by (simp add: close_printer_def)
  then show ?thesis by (intro exI [of _ "Done DevClose"]) simp
next
  case (2 m)
  then have "close_printer E (Some p) w = w\<lparr>dev := dev w @ [Failed DevClose m]\<rparr>"
    by (simp add: close_printer_def)
  then show ?thesis by (intro exI [of _ "Failed DevClose m"]) simp
qed

lemma reraise_Inr: "reraise prefix r = Inr v \<longleftrightarrow> r = Inr v"
  by (cases r) (simp_all add: reraise_def)

lemma text_emit_Inr:
  assumes "text_emit E p txt fsize use_cowsay w = (Inr u, w')"
  shows "\<exists>t prepared cmd.
           txt = Some t
         \<and> prepare_text_for_print E t (get_font_size_config E fsize use_cowsay) use_cowsay = Inr prepared
         \<and> scale_command (get_int E (''fonts.'' @ fsize @ ''.width'') 1)
                         (get_int E (''fonts.'' @ fsize @ ''.height'') 1) = Inr cmd
         \<and> w' = w\<lparr>dev := dev w @ fed_before E
                   @ [Done (DevRaw RESET_1x1), Done (DevRaw cmd), Done (DevText prepared),
                      Done (DevText newline), Done (DevRaw RESET_1x1)]
                   @ fed_after_and_cut E\<rparr>"
proof -
  from assms obtain w1 prepared w2 w5 where
    f: "feed E p (nat (get_int E ''printer.feed_before_lines'' 1)) w = (Inr (), w1)"
    and pr: "(case txt of None \<Rightarrow> Inl (TypeError ''expected a string, got NoneType'')
              | Some t \<Rightarrow> prepare_text_for_print E t (get_font_size_config E fsize use_cowsay) use_cowsay)
             = Inr prepared"
    and s: "set_font_size E p fsize w1 = (Inr (), w2)"
    and w5: "w5 = w2\<lparr>dev := dev w2 @ [Done (DevText prepared), Done (DevText newline), Done (DevRaw RESET_1x1)]\<rparr>"
    and c: "feed_and_cut E p w5 = (Inr u, w')"
    by (auto simp add: text_emit_def then_do_Inr device_call_Inr lift_eq reset_font_size_def)
  from pr obtain t where t: "txt = Some t"
    "prepare_text_for_print E t (get_font_size_config E fsize use_cowsay) use_cowsay = Inr prepared"
    by (cases "txt") auto
  from set_font_size_Inr [OF s] obtain cmd where
    cmd: "scale_command (get_int E (''fonts.'' @ fsize @ ''.width'') 1)
                        (get_int E (''fonts.'' @ fsize @ ''.height'') 1) = Inr cmd"
    and w2: "w2 = w1\<lparr>dev := dev w1 @ [Done (DevRaw RESET_1x1), Done (DevRaw cmd)]\<rparr>"
    by blast
  have "w' = w\<lparr>dev := dev w @ fed_before E
                   @ [Done (DevRaw RESET_1x1), Done (DevRaw cmd), Done (DevText prepared),
                      Done (DevText newline), Done (DevRaw RESET_1x1)]
                   @ fed_after_and_cut E\<rparr>"
    using feed_Inr [OF f] w2 w5 feed_and_cut_Inr [OF c] by (simp add: fed_before_def)
  with t cmd show ?thesis by blast
qed


lemma print_text_Inr:
  assumes "fsize \<noteq> ''banner''" and "print_text E job_id txt fsize use_cowsay w = (Inr u, w')"
  shows "\<exists>opens prepared cmd closing.
           scale_command (get_int E (''fonts.'' @ fsize @ ''.width'') 1)
                         (get_int E (''fonts.'' @ fsize @ ''.height'') 1) = Inr cmd
         \<and> list_all is_open opens \<and> event_of closing = DevClose
         \<and> w' = w\<lparr>dev := dev w @ opens @ fed_before E
                   @ [Done (DevRaw RESET_1x1), Done (DevRaw cmd), Done (DevText prepared),
                      Done (DevText newline), Done (DevRaw RESET_1x1)]
                   @ fed_after_and_cut E @ [closing]\<rparr>"
proof -
  from assms obtain p w1 w2 where
    c: "connect_printer E w = (Inr p, w1)"
    and e: "text_emit E p txt fsize use_cowsay w1 = (Inr (), w2)"
    and cl: "w' = close_printer E (Some p) w2"
    by (auto simp add: print_text_def reraise_Inr split: prod.splits sum.splits)
  from connect_printer_Inr [OF c] obtain opens where
    o: "w1 = w\<lparr>dev := dev w @ opens\<rparr>" "list_all is_open opens" by blast
  from text_emit_Inr [OF e] obtain prepared cmd where
    cmd: "scale_command (get_int E (''fonts.'' @ fsize @ ''.width'') 1)
                        (get_int E (''fonts.'' @ fsize @ ''.height'') 1) = Inr cmd"
    and w2: "w2 = w1\<lparr>dev := dev w1 @ fed_before E
                   @ [Done (DevRaw RESET_1x1), Done (DevRaw cmd), Done (DevText prepared),
                      Done (DevText newline), Done (DevRaw RESET_1x1)]
                   @ fed_after_and_cut E\<rparr>"
    by blast
  from close_printer_Some [of E p w2] obtain closing where
    k: "close_printer E (Some p) w2 = w2\<lparr>dev := dev w2 @ [closing]\<rparr>" "event_of closing = DevClose"
    by blast
  have "w' = w\<lparr>dev := dev w @ opens @ fed_before E
                   @ [Done (DevRaw RESET_1x1), Done (DevRaw cmd), Done (DevText prepared),
                      Done (DevText newline), Done (DevRaw RESET_1x1)]
                   @ fed_after_and_cut E @ [closing]\<rparr>"
    using cl k(1) w2 o(1) by simp
  with cmd o(2) k(2) show ?thesis by blast
qed

lemma process_image_dev: "dev (snd (process_image E path out max_width rot bw w)) = dev w"
  by (simp add: process_image_def image_save_def split: sum.splits)

lemma caption_emit_Inr:
  assumes "caption_emit E p caption fsize w = (Inr u, w')"
  shows "\<exists>prepared cmd.
           scale_command (get_int E (''fonts.'' @ fsize @ ''.width'') 1)
                         (get_int E (''fonts.'' @ fsize @ ''.height'') 1) = Inr cmd
         \<and> w' = w\<lparr>dev := dev w
                   @ [Done (DevText newline), Done (DevRaw RESET_1x1), Done (DevRaw cmd),
                      Done (DevText prepared), Done (DevText newline), Done (DevRaw RESET_1x1)]\<rparr>"
proof -
  from assms obtain w2 prepared where
    s: "set_font_size E p fsize (w\<lparr>dev := dev w @ [Done (DevText newline)]\<rparr>) = (Inr (), w2)"
    and w': "w' = w2\<lparr>dev := dev w2 @ [Done (DevText prepared), Done (DevText newline), Done (DevRaw RESET_1x1)]\<rparr>"
    by (auto simp add: caption_emit_def then_do_Inr device_call_Inr lift_eq reset_font_size_def)
  from set_font_size_Inr [OF s] obtain cmd where
    cmd: "scale_command (get_int E (''fonts.'' @ fsize @ ''.width'') 1)
                        (get_int E (''fonts.'' @ fsize @ ''.height'') 1) = Inr cmd"
    and w2: "w2 = w\<lparr>dev := dev w @ [Done (DevText newline), Done (DevRaw RESET_1x1), Done (DevRaw cmd)]\<rparr>"
    by auto
  from w' w2 cmd show ?thesis by auto
qed

lemma image_emit_captioned_Inr:
  assumes "caption \<noteq> []" and "\<not> is_banner"
    and "image_emit E p path (Some caption) fsize is_banner w = (Inr u, w')"
  shows "\<exists>processed prepared cmd.
           scale_command (get_int E (''fonts.'' @ fsize @ ''.width'') 1)
                         (get_int E (''fonts.'' @ fsize @ ''.height'') 1) = Inr cmd
         \<and> dev w' = dev w @ fed_before E
                   @ [Done (DevImage processed), Done (DevText newline), Done (DevRaw RESET_1x1),
                      Done (DevRaw cmd), Done (DevText prepared), Done (DevText newline),
                      Done (DevRaw RESET_1x1)]
                   @ fed_after_and_cut E"
proof -
  from assms(3) obtain w1 where
    f: "feed E p (nat (get_int E ''printer.feed_before_lines'' 1)) w = (Inr (), w1)"
    and path: "path \<noteq> None"
    by (cases path) (auto simp add: image_emit_def then_do_Inr lift_eq)
  then obtain src where src: "path = Some src" by auto
  let ?processed = "path_join (path_parent src) (''processed_'' @ path_name src)"
  from assms f src obtain saved w2 w4 where
    pi: "process_image E src ?processed (get_int E ''printer.dots_per_line'' 384) is_banner True w1 = (Inr saved, w2)"
    and ce: "caption_emit E p caption fsize (w2\<lparr>dev := dev w2 @ [Done (DevImage ?processed)]\<rparr>) = (Inr (), w4)"
    and fc: "feed_and_cut E p w4 = (Inr u, w')"
    by (auto simp add: image_emit_def Let_def then_do_Inr device_call_Inr)
  have d2: "dev w2 = dev w1"
    using process_image_dev [of E src ?processed "get_int E ''printer.dots_per_line'' 384" is_banner True w1] pi
    by simp
  from caption_emit_Inr [OF ce] obtain prepared cmd where
    cmd: "scale_command (get_int E (''fonts.'' @ fsize @ ''.width'') 1)
                        (get_int E (''fonts.'' @ fsize @ ''.height'') 1) = Inr cmd"
    and w4: "w4 = (w2\<lparr>dev := dev w2 @ [Done (DevImage ?processed)]\<rparr>)\<lparr>dev := dev (w2\<lparr>dev := dev w2 @ [Done (DevImage ?processed)]\<rparr>)
                   @ [Done (DevText newline), Done (DevRaw RESET_1x1), Done (DevRaw cmd),
                      Done (DevText prepared), Done (DevText newline), Done (DevRaw RESET_1x1)]\<rparr>"
    by blast
  have "dev w' = dev w @ fed_before E
                   @ [Done (DevImage ?processed), Done (DevText newline), Done (DevRaw RESET_1x1),
                      Done (DevRaw cmd), Done (DevText prepared), Done (DevText newline),
                      Done (DevRaw RESET_1x1)]
                   @ fed_after_and_cut E"
    using feed_Inr [OF f] d2 w4 feed_and_cut_Inr [OF fc] by (simp add: fed_before_def)
  with cmd show ?thesis by blast
qed

lemma print_image_captioned_Inr:
  assumes "caption \<noteq> []" and "\<not> is_banner"
    and "print_image E job_id path (Some caption) fsize is_banner w = (Inr u, w')"
  shows "\<exists>opens processed prepared cmd closing.
           scale_command (get_int E (''fonts.'' @ fsize @ ''.width'') 1)
                         (get_int E (''fonts.'' @ fsize @ ''.height'') 1) = Inr cmd
         \<and> list_all is_open opens \<and> event_of closing = DevClose
         \<and> dev w' = dev w @ opens @ fed_before E
                   @ [Done (DevImage processed), Done (DevText newline), Done (DevRaw RESET_1x1),
                      Done (DevRaw cmd), Done (DevText prepared), Done (DevText newline),
                      Done (DevRaw RESET_1x1)]
                   @ fed_after_and_cut E @ [closing]"
proof -
  from assms(3) obtain p w1 w2 where
    c: "connect_printer E w = (Inr p, w1)"
    and e: "image_emit E p path (Some caption) fsize is_banner w1 = (Inr (), w2)"
    and cl: "w' = close_printer E (Some p) w2"
    by (auto simp add: print_image_def reraise_Inr split: prod.splits sum.splits)
  from connect_printer_Inr [OF c] obtain opens where
    o: "w1 = w\<lparr>dev := dev w @ opens\<rparr>" "list_all is_open opens" by blast
  from image_emit_captioned_Inr [OF assms(1,2) e] obtain processed prepared cmd where
    cmd: "scale_command (get_int E (''fonts.'' @ fsize @ ''.width'') 1)
                        (get_int E (''fonts.'' @ fsize @ ''.height'') 1) = Inr cmd"
    and w2: "dev w2 = dev w1 @ fed_before E
                   @ [Done (DevImage processed), Done (DevText newline), Done (DevRaw RESET_1x1),
                      Done (DevRaw cmd), Done (DevText prepared), Done (DevText newline),
                      Done (DevRaw RESET_1x1)]
                   @ fed_after_and_cut E"
    by blast
  from close_printer_Some [of E p w2] obtain closing where
    k: "close_printer E (Some p) w2 = w2\<lparr>dev := dev w2 @ [closing]\<rparr>" "event_of closing = DevClose"
    by blast
  have "dev w' = dev w @ opens @ fed_before E
                   @ [Done (DevImage processed), Done (DevText newline), Done (DevRaw RESET_1x1),
                      Done (DevRaw cmd), Done (DevText prepared), Done (DevText newline),
                      Done (DevRaw RESET_1x1)]
                   @ fed_after_and_cut E @ [closing]"
    using cl k(1) w2 o(1) by simp
  with cmd o(2) k(2) show ?thesis by blast
qed

subsection \<open>Font-scale bytes\<close>

lemma scale_bytes_append: "scale_bytes (xs @ ys) = scale_bytes xs @ scale_bytes ys"
  by (simp add: scale_bytes_def)

lemma scale_bytes_Cons: "scale_bytes (e # es) = scale_byte_of e @ scale_bytes es"
  by (simp add: scale_bytes_def)

lemma scale_bytes_Nil: "scale_bytes [] = []"
  by (simp add: scale_bytes_def)

lemma scale_bytes_opens: "list_all is_open es \<Longrightarrow> scale_bytes es = []"
  by (induction es) (auto simp add: scale_bytes_def elim: is_open.elims)

lemma scale_bytes_fed_before: "scale_bytes (fed_before E) = []"
  by (simp add: scale_bytes_def fed_before_def)

lemma scale_bytes_fed_after_and_cut: "scale_bytes (fed_after_and_cut E) = []"
  by (simp add: scale_bytes_def fed_after_and_cut_def)

lemma scale_byte_of_closing: "event_of closing = DevClose \<Longrightarrow> scale_byte_of closing = []"
  by (cases closing) auto

lemma scale_command_Inr:
  "scale_command a b = Inr cmd \<Longrightarrow> cmd = GS_BANG @ [nat (size_byte a b)]"
  by (auto simp add: scale_command_def bytes1_def split: if_splits)

theorem font_scale_reset_set_reset:
  "(fsize \<noteq> ''banner'' \<and> print_text E job_id txt fsize use_cowsay w = (Inr (), w')
      \<longrightarrow> scale_bytes (drop (length (dev w)) (dev w')) = [0, configured_size_byte E fsize, 0])
 \<and> (caption \<noteq> [] \<and> \<not> is_banner
      \<and> print_image E job_id path (Some caption) fsize is_banner w = (Inr (), w'')
      \<longrightarrow> scale_bytes (drop (length (dev w)) (dev w'')) = [0, configured_size_byte E fsize, 0])"
proof (intro conjI impI)
  assume a: "fsize \<noteq> ''banner'' \<and> print_text E job_id txt fsize use_cowsay w = (Inr (), w')"
  from print_text_Inr [of fsize E job_id "txt" use_cowsay w "()" w'] a
  obtain opens prepared cmd closing where
    cmd: "scale_command (get_int E (''fonts.'' @ fsize @ ''.width'') 1)
                        (get_int E (''fonts.'' @ fsize @ ''.height'') 1) = Inr cmd"
    and o: "list_all is_open opens" and k: "event_of closing = DevClose"
    and w': "w' = w\<lparr>dev := dev w @ opens @ fed_before E
                   @ [Done (DevRaw RESET_1x1), Done (DevRaw cmd), Done (DevText prepared),
                      Done (DevText newline), Done (DevRaw RESET_1x1)]
                   @ fed_after_and_cut E @ [closing]\<rparr>"
    by blast
  have c: "cmd = GS_BANG @ [configured_size_byte E fsize]"
    using scale_command_Inr [OF cmd] by (simp add: configured_size_byte_def)
  show "scale_bytes (drop (length (dev w)) (dev w')) = [0, configured_size_byte E fsize, 0]"
    unfolding w' c
    by (simp add: scale_bytes_append scale_bytes_Cons scale_bytes_opens [OF o]
        scale_bytes_fed_before scale_bytes_fed_after_and_cut scale_byte_of_closing [OF k] scale_bytes_Nil
        RESET_1x1_def GS_BANG_def)
next
  assume a: "caption \<noteq> [] \<and> \<not> is_banner
      \<and> print_image E job_id path (Some caption) fsize is_banner w = (Inr (), w'')"
  from print_image_captioned_Inr [of caption is_banner E job_id path fsize w "()" w''] a
  obtain opens processed prepared cmd closing where
    cmd: "scale_command (get_int E (''fonts.'' @ fsize @ ''.width'') 1)
                        (get_int E (''fonts.'' @ fsize @ ''.height'') 1) = Inr cmd"
    and o: "list_all is_open opens" and k: "event_of closing = DevClose"
    and w'': "dev w'' = dev w @ opens @ fed_before E
                   @ [Done (DevImage processed), Done (DevText newline), Done (DevRaw RESET_1x1),
                      Done (DevRaw cmd), Done (DevText prepared), Done (DevText newline),
                      Done (DevRaw RESET_1x1)]
                   @ fed_after_and_cut E @ [closing]"
    by blast
  have c: "cmd = GS_BANG @ [configured_size_byte E fsize]"
    using scale_command_Inr [OF cmd] by (simp add: configured_size_byte_def)
  show "scale_bytes (drop (length (dev w)) (dev w'')) = [0, configured_size_byte E fsize, 0]"
    unfolding w'' c
    by (simp add: scale_bytes_append scale_bytes_Cons scale_bytes_opens [OF o]
        scale_bytes_fed_before scale_bytes_fed_after_and_cut scale_byte_of_closing [OF k] scale_bytes_Nil
        RESET_1x1_def GS_BANG_def)
qed

end
